theory Spec2Isabelle
  imports Complex_Main "HOL-Library.Log_Nat"
begin

section \<open>Numeric values and arrays\<close>

text \<open>
  The exceptions that the modelled Python code can raise.
\<close>

datatype error = IndexError | ValueError | NameError | UnboundLocalError | OverflowError

text \<open>
  Floating-point values: a finite value is given by the real number it denotes, and the
  non-finite values that numpy produces (it only warns there) are values of their own.
  \<open>fdiv\<close> and \<open>fsub\<close> are division and subtraction without rounding; they are used
  on halves of pixel counts and on integer positions, where the double-precision result is
  the exact one. The operations that round are defined in the next section.
\<close>

datatype flt = NaN | NInf | Fin real | PInf

fun fdiv :: "flt \<Rightarrow> flt \<Rightarrow> flt" where
  "fdiv (Fin a) (Fin b) =
     (if b \<noteq> 0 then Fin (a / b)
      else if a = 0 then NaN else if 0 < a then PInf else NInf)"
| "fdiv (Fin a) PInf = Fin 0"
| "fdiv (Fin a) NInf = Fin 0"
| "fdiv PInf (Fin b) = (if 0 \<le> b then PInf else NInf)"
| "fdiv NInf (Fin b) = (if 0 \<le> b then NInf else PInf)"
| "fdiv _ _ = NaN"

fun fsub :: "flt \<Rightarrow> flt \<Rightarrow> flt" where
  "fsub (Fin a) (Fin b) = Fin (a - b)"
| "fsub (Fin a) PInf = NInf"
| "fsub (Fin a) NInf = PInf"
| "fsub PInf (Fin b) = PInf"
| "fsub PInf NInf = PInf"
| "fsub NInf (Fin b) = NInf"
| "fsub NInf PInf = NInf"
| "fsub _ _ = NaN"

text \<open>
  A two-dimensional array is the list of its rows. \<open>shape2\<close> is numpy's \<open>.shape\<close>;
  an array without rows is given zero columns.
\<close>

definition shape2 :: "'a list list \<Rightarrow> nat \<times> nat" where
  "shape2 z = (length z, (case z of [] \<Rightarrow> 0 | row # _ \<Rightarrow> length row))"

definition rect :: "'a list list \<Rightarrow> bool" where
  "rect z = (\<forall>row \<in> set z. length row = snd (shape2 z))"

text \<open>The index pairs \<open>(row, column)\<close> of an array of the given shape, in row-major order.\<close>

definition pixels :: "nat \<times> nat \<Rightarrow> (nat \<times> nat) list" where
  "pixels shape = List.product [0..<fst shape] [0..<snd shape]"

section \<open>Double-precision arithmetic\<close>

text \<open>
  IEEE 754 binary64 with the default rounding, as numpy's \<open>float64\<close> computes: \<open>rne\<close>
  rounds to the nearest integer, a tie to the even one; \<open>expo x\<close> is the binary exponent
  of \<open>x \<noteq> 0\<close>, that is \<open>2 ^ expo x \<le> |x| < 2 ^ (expo x + 1)\<close>; \<open>fl x\<close> is the double
  nearest to \<open>x\<close>, with 53 significant bits, gradual underflow below \<open>2 ^ -1022\<close> and
  overflow to an infinity from \<open>2 ^ 1024\<close> on. Signed zeros are not distinguished.
\<close>

definition rne :: "real \<Rightarrow> int" where
  "rne x =
     (let f = \<lfloor>x\<rfloor>; d = x - of_int f
      in if d < 1/2 then f else if 1/2 < d then f + 1 else if even f then f else f + 1)"

definition expo :: "real \<Rightarrow> int" where
  "expo x =
     (if 1 \<le> \<bar>x\<bar> then bitlen \<lfloor>\<bar>x\<bar>\<rfloor> - 1
      else (let b = bitlen \<lfloor>1 / \<bar>x\<bar>\<rfloor> - 1
            in if \<bar>x\<bar> * 2 ^ nat b = 1 then - b else - b - 1))"

definition fl :: "real \<Rightarrow> flt" where
  "fl x =
     (if x = 0 then Fin 0
      else (let e = max (expo x) (- 1022) - 52;
                q = of_int (rne (x / 2 powi e)) * 2 powi e
            in if 1024 \<le> expo q then (if 0 < x then PInf else NInf) else Fin q))"

text \<open>
  Negation, addition, subtraction, multiplication and \<open>\<le>\<close> on doubles: the exact result,
  rounded once; the non-finite operands follow IEEE 754.
\<close>

fun dneg :: "flt \<Rightarrow> flt" where
  "dneg (Fin a) = Fin (- a)"
| "dneg PInf = NInf"
| "dneg NInf = PInf"
| "dneg NaN = NaN"

fun dadd :: "flt \<Rightarrow> flt \<Rightarrow> flt" where
  "dadd (Fin a) (Fin b) = fl (a + b)"
| "dadd NaN _ = NaN"
| "dadd _ NaN = NaN"
| "dadd PInf NInf = NaN"
| "dadd NInf PInf = NaN"
| "dadd PInf _ = PInf"
| "dadd NInf _ = NInf"
| "dadd _ PInf = PInf"
| "dadd _ NInf = NInf"

definition dsub :: "flt \<Rightarrow> flt \<Rightarrow> flt" where
  "dsub a b = dadd a (dneg b)"

fun dmul :: "flt \<Rightarrow> flt \<Rightarrow> flt" where
  "dmul (Fin a) (Fin b) = fl (a * b)"
| "dmul NaN _ = NaN"
| "dmul _ NaN = NaN"
| "dmul (Fin a) PInf = (if a = 0 then NaN else if 0 < a then PInf else NInf)"
| "dmul (Fin a) NInf = (if a = 0 then NaN else if 0 < a then NInf else PInf)"
| "dmul PInf (Fin b) = (if b = 0 then NaN else if 0 < b then PInf else NInf)"
| "dmul NInf (Fin b) = (if b = 0 then NaN else if 0 < b then NInf else PInf)"
| "dmul PInf PInf = PInf"
| "dmul NInf NInf = PInf"
| "dmul PInf NInf = NInf"
| "dmul NInf PInf = NInf"

fun dle :: "flt \<Rightarrow> flt \<Rightarrow> bool" where
  "dle (Fin a) (Fin b) \<longleftrightarrow> a \<le> b"
| "dle NaN _ \<longleftrightarrow> False"
| "dle _ NaN \<longleftrightarrow> False"
| "dle NInf _ \<longleftrightarrow> True"
| "dle _ PInf \<longleftrightarrow> True"
| "dle PInf _ \<longleftrightarrow> False"
| "dle _ NInf \<longleftrightarrow> False"

section \<open>Geometry: the circular mask\<close>

text \<open>
  \<open>np.ogrid[start:stop]\<close> along one axis: \<open>ceil((stop - start) / 1.0)\<close> points
  \<open>k + start\<close>.
\<close>

definition ogrid_axis :: "real \<Rightarrow> real \<Rightarrow> real list" where
  "ogrid_axis start stop = map (\<lambda>k. real k + start) [0..<nat \<lceil>stop - start\<rceil>]"

text \<open>
  \<open>circular_mask(shape, radius, center)\<close>: \<open>y\<close> is the column vector of the first
  grid axis, \<open>x\<close> the row vector of the second one, and the comparison broadcasts to an
  array with one row per entry of \<open>y\<close>.
\<close>

definition circular_mask :: "nat \<times> nat \<Rightarrow> real \<Rightarrow> real \<times> real \<Rightarrow> bool list list" where
  "circular_mask shape radius center =
     (let r = radius;
          nx = fst shape; ny = snd shape;
          a = fst center; b = snd center;
          y = ogrid_axis (- b) (real ny - b);
          x = ogrid_axis (- a) (real nx - a)
      in map (\<lambda>yv. map (\<lambda>xv. xv * xv + yv * yv \<le> r * r) x) y)"

text \<open>
  The same function on a center and a radius that are floats. \<open>np.ogrid[start:stop]\<close>
  then has \<open>int(math.ceil((stop - start) / 1.0))\<close> points \<open>k * 1 + start\<close>, all computed in
  double precision (\<open>math.ceil\<close> raises \<open>ValueError\<close> on a NaN and \<open>OverflowError\<close> on an
  infinity), \<open>stop\<close> is the rounded difference \<open>ny - b\<close>, and every product and sum of the
  comparison \<open>x*x + y*y <= r*r\<close> is rounded. The arguments \<open>radius\<close> and \<open>center\<close> are the
  values of the doubles that are passed. With an integer center and radius numpy computes
  on integers, which is \<open>circular_mask\<close> above.
\<close>

definition ogrid_double :: "real \<Rightarrow> flt \<Rightarrow> error + flt list" where
  "ogrid_double start stop =
     (case dsub stop (Fin start) of
        Fin d \<Rightarrow> Inr (map (\<lambda>k. dadd (Fin (real k)) (Fin start)) [0..<nat \<lceil>d\<rceil>])
      | NaN \<Rightarrow> Inl ValueError
      | _ \<Rightarrow> Inl OverflowError)"

definition circular_mask_double ::
  "nat \<times> nat \<Rightarrow> real \<Rightarrow> real \<times> real \<Rightarrow> error + bool list list" where
  "circular_mask_double shape radius center =
     (let r = radius;
          nx = fst shape; ny = snd shape;
          a = fst center; b = snd center
      in case ogrid_double (- b) (dsub (Fin (real ny)) (Fin b)) of
           Inl e \<Rightarrow> Inl e
         | Inr y \<Rightarrow>
             (case ogrid_double (- a) (dsub (Fin (real nx)) (Fin a)) of
                Inl e \<Rightarrow> Inl e
              | Inr x \<Rightarrow>
                  Inr (map (\<lambda>yv. map (\<lambda>xv. dle (dadd (dmul xv xv) (dmul yv yv))
                                                 (dmul (Fin r) (Fin r))) x) y)))"

section \<open>RadialProfiler\<close>

text \<open>
  \<open>np.sqrt(v).astype(np.int)\<close> for a non-negative \<open>v\<close>: the square root, truncated
  toward zero.
\<close>

definition trunc_sqrt :: "real \<Rightarrow> nat" where
  "trunc_sqrt v = nat \<lfloor>sqrt v\<rfloor>"

text \<open>The integer square root, by which \<open>trunc_sqrt\<close> is computed.\<close>

fun isqrt :: "nat \<Rightarrow> nat" where
  "isqrt n =
     (if n < 4 then (if n = 0 then 0 else 1)
      else (let r = 2 * isqrt (n div 4) in if (r + 1) * (r + 1) \<le> n then r + 1 else r))"

declare isqrt.simps [simp del]

text \<open>\<open>np.bincount(x)\<close> and \<open>np.bincount(x, weights)\<close>: one bin per value up to the largest.\<close>

definition exact_nbins :: "nat list \<Rightarrow> nat" where
  "exact_nbins xs = (if xs = [] then 0 else Suc (Max (set xs)))"

definition exact_bincount :: "nat list \<Rightarrow> nat list" where
  "exact_bincount xs = fold (\<lambda>i acc. acc[i := acc ! i + 1]) xs (replicate (exact_nbins xs) 0)"

definition exact_bincount_weights :: "nat list \<Rightarrow> real list \<Rightarrow> error + real list" where
  "exact_bincount_weights xs ws =
     (if length ws \<noteq> length xs then Inl ValueError
      else Inr (fold (\<lambda>(i, w) acc. acc[i := acc ! i + w]) (zip xs ws) (replicate (exact_nbins xs) 0)))"

text \<open>
  \<open>radial_average(z, center)\<close>: \<open>r\<close> holds the truncated distance of every pixel from
  \<open>center = (row, column)\<close>, \<open>tbin\<close> the sum of the intensities per distance and \<open>nr\<close>
  the number of pixels per distance.
\<close>

definition exact_radial_average :: "real list list \<Rightarrow> real \<times> real \<Rightarrow> error + flt list" where
  "exact_radial_average z center =
     (let (h, w) = shape2 z;
          r = map (\<lambda>y. map (\<lambda>x. trunc_sqrt ((real x - snd center)\<^sup>2 + (real y - fst center)\<^sup>2))
                             [0..<w]) [0..<h]
      in case exact_bincount_weights (concat r) (concat z) of
           Inl e \<Rightarrow> Inl e
         | Inr tbin \<Rightarrow>
             let nr = exact_bincount (concat r)
             in Inr (map2 (\<lambda>t n. fdiv (Fin t) (Fin (real n))) tbin nr))"

section \<open>CenterFinder\<close>

text \<open>\<open>z[i, j]\<close> with numpy's indexing: a negative index counts from the end.\<close>

definition get2 :: "'a list list \<Rightarrow> int \<Rightarrow> int \<Rightarrow> error + 'a" where
  "get2 z i j =
     (let (h, w) = shape2 z;
          i' = (if i < 0 then i + int h else i);
          j' = (if j < 0 then j + int w else j)
      in if 0 \<le> i' \<and> i' < int h \<and> 0 \<le> j' \<and> j' < int w
         then Inr (z ! nat i' ! nat j') else Inl IndexError)"

text \<open>
  \<open>z * mask\<close>: the elementwise product of a frame and a boolean array under numpy's
  broadcasting (an axis of length 1 is stretched, any other mismatch raises).
\<close>

definition broadcastable :: "nat \<Rightarrow> nat \<Rightarrow> bool" where
  "broadcastable m n \<longleftrightarrow> m = n \<or> m = 1 \<or> n = 1"

definition bdim :: "nat \<Rightarrow> nat \<Rightarrow> nat" where
  "bdim m n = (if m = 1 then n else m)"

definition bidx :: "nat \<Rightarrow> nat \<Rightarrow> nat" where
  "bidx m i = (if m = 1 then 0 else i)"

definition mul_mask :: "real list list \<Rightarrow> bool list list \<Rightarrow> error + real list list" where
  "mul_mask z mask' =
     (let (h1, w1) = shape2 z; (h2, w2) = shape2 mask'
      in if broadcastable h1 h2 \<and> broadcastable w1 w2
         then Inr (map (\<lambda>i. map (\<lambda>j. z ! bidx h1 i ! bidx w1 j
                                        * (if mask' ! bidx h2 i ! bidx w2 j then 1 else 0))
                                 [0..<bdim w1 w2]) [0..<bdim h1 h2])
         else Inl ValueError)"

text \<open>\<open>z.max()\<close>: raises on an array without elements.\<close>

definition amax :: "real list list \<Rightarrow> error + real" where
  "amax z = (case concat z of [] \<Rightarrow> Inl ValueError | v # vs \<Rightarrow> Inr (fold max vs v))"

text \<open>\<open>np.where(z == m)\<close>: the positions holding \<open>m\<close>, in row-major order.\<close>

definition where_eq :: "real list list \<Rightarrow> real \<Rightarrow> (nat \<times> nat) list" where
  "where_eq z m = filter (\<lambda>(i, j). z ! i ! j = m) (pixels (shape2 z))"

text \<open>\<open>np.average\<close> of an array of indices.\<close>

definition average :: "nat list \<Rightarrow> flt" where
  "average xs = fdiv (Fin (real (sum_list xs))) (Fin (real (length xs)))"

text \<open>\<open>np.rint\<close> rounds to the nearest integer, a tie to the even one.\<close>

fun rint :: "flt \<Rightarrow> flt" where
  "rint (Fin v) =
     (let f = \<lfloor>v\<rfloor>; d = v - of_int f
      in Fin (of_int (if d < 1/2 then f else if 1/2 < d then f + 1
                      else if even f then f else f + 1)))"
| "rint v = v"

text \<open>
  \<open>.astype(int)\<close> truncates toward zero; a non-finite value becomes the smallest 64-bit
  integer (as on x86-64).
\<close>

fun astype_int :: "flt \<Rightarrow> int" where
  "astype_int (Fin v) = (if 0 \<le> v then \<lfloor>v\<rfloor> else \<lceil>v\<rceil>)"
| "astype_int _ = - (2 ^ 63)"

text \<open>\<open>scipy.ndimage.center_of_mass\<close>: the intensity-weighted mean of each index.\<close>

definition center_of_mass :: "real list list \<Rightarrow> flt \<times> flt" where
  "center_of_mass z =
     (let ps = pixels (shape2 z);
          normalizer = sum_list (map (\<lambda>(i, j). z ! i ! j) ps)
      in (fdiv (Fin (sum_list (map (\<lambda>(i, j). z ! i ! j * real i) ps))) (Fin normalizer),
          fdiv (Fin (sum_list (map (\<lambda>(i, j). z ! i ! j * real j) ps))) (Fin normalizer)))"

text \<open>
  The statements that the \<open>if\<close> branch and the \<open>while\<close> body of \<open>refine_beam_position\<close>
  share: they read \<open>z_tmp\<close> and assign \<open>c_int\<close> and \<open>ztmp\<close>. The result is the pair of
  the new \<open>c_int\<close> and the new \<open>ztmp\<close>.
\<close>

definition recenter ::
  "real list list \<Rightarrow> real list list \<Rightarrow> real \<Rightarrow> real \<Rightarrow> error + real \<times> real list list" where
  "recenter z z_tmp radius m =
     (let maxes = where_eq z_tmp m;
          c = (astype_int (rint (average (map fst maxes))),
               astype_int (rint (average (map snd maxes))))
      in case get2 z (fst c) (snd c) of
           Inl e \<Rightarrow> Inl e
         | Inr c_int \<Rightarrow>
             let mask' = circular_mask (shape2 z) radius (real_of_int (fst c), real_of_int (snd c))
             in case mul_mask z mask' of
                  Inl e \<Rightarrow> Inl e
                | Inr ztmp \<Rightarrow> Inr (c_int, ztmp))"

text \<open>
  The \<open>while\<close> loop. Its state is \<open>c_int\<close> and \<open>ztmp\<close> (unbound until first assigned);
  \<open>z_tmp\<close> and its maximum \<open>m\<close> are never assigned in the loop. The result \<open>None\<close>
  stands for a loop that does not return.
\<close>

partial_function (option) refine_loop ::
  "real list list \<Rightarrow> real list list \<Rightarrow> real \<Rightarrow> real \<Rightarrow> real \<times> real list list option
   \<Rightarrow> (error + real \<times> real list list option) option" where
  "refine_loop z z_tmp radius m st =
     (if fst st < m
      then (case recenter z z_tmp radius m of
              Inl e \<Rightarrow> Some (Inl e)
            | Inr (c_int, ztmp) \<Rightarrow> refine_loop z z_tmp radius m (c_int, Some ztmp))
      else Some (Inr st))"

declare refine_loop.simps [code]

text \<open>
  \<open>refine_beam_position(z, start, radius)\<close>. The position \<open>start\<close> indexes the frame as
  \<open>(row, column)\<close>. The result is \<open>None\<close> when the loop does not return, an exception, or
  the center of mass of \<open>ztmp\<close>.
\<close>

definition refine_beam_position ::
  "real list list \<Rightarrow> int \<times> int \<Rightarrow> real \<Rightarrow> (error + flt \<times> flt) option" where
  "refine_beam_position z start radius =
     (case get2 z (fst start) (snd start) of
        Inl e \<Rightarrow> Some (Inl e)
      | Inr c_int \<Rightarrow>
     (case mul_mask z (circular_mask (shape2 z) radius
                         (real_of_int (fst start), real_of_int (snd start))) of
        Inl e \<Rightarrow> Some (Inl e)
      | Inr z_tmp \<Rightarrow>
     (case amax z_tmp of
        Inl e \<Rightarrow> Some (Inl e)
      | Inr m \<Rightarrow>
     (case (if c_int = m
            then (case recenter z z_tmp radius m of
                    Inl e \<Rightarrow> Inl e
                  | Inr (c_int', ztmp) \<Rightarrow> Inr (c_int', Some ztmp))
            else Inr (c_int, None)) of
        Inl e \<Rightarrow> Some (Inl e)
      | Inr st \<Rightarrow>
     (case refine_loop z z_tmp radius m st of
        None \<Rightarrow> None
      | Some (Inl e) \<Rightarrow> Some (Inl e)
      | Some (Inr (_, None)) \<Rightarrow> Some (Inl UnboundLocalError)
      | Some (Inr (_, Some ztmp)) \<Rightarrow> Some (Inr (center_of_mass ztmp)))))))"

section \<open>The frame stack\<close>

text \<open>
  An \<open>ElectronDiffraction\<close> signal holds one frame per navigation index in \<open>data\<close>.
  \<open>navigation_size\<close> and \<open>signal_shape\<close> are those of hyperspy's \<open>axes_manager\<close>:
  the signal shape lists the frame's axes in \<open>(x, y)\<close> order, that is, width first.
\<close>

record 'a ElectronDiffraction =
  data :: "'a list list list"

definition navigation_size :: "'a ElectronDiffraction \<Rightarrow> nat" where
  "navigation_size s = length (data s)"

definition signal_shape :: "'a ElectronDiffraction \<Rightarrow> nat \<times> nat" where
  "signal_shape s = (case data s of [] \<Rightarrow> (0, 0) | z # _ \<Rightarrow> (snd (shape2 z), fst (shape2 z)))"

text \<open>\<open>self.map(f)\<close> replaces every frame by its image under \<open>f\<close>, in place.\<close>

definition map_signal ::
  "('a list list \<Rightarrow> 'a list list) \<Rightarrow> 'a ElectronDiffraction \<Rightarrow> 'a ElectronDiffraction" where
  "map_signal f s = s\<lparr>data := map f (data s)\<rparr>"

text \<open>\<open>self.sum().data\<close>: the elementwise sum of all frames.\<close>

definition stack_sum :: "real list list list \<Rightarrow> real list list" where
  "stack_sum fs = (case fs of [] \<Rightarrow> [] | f # rest \<Rightarrow> fold (\<lambda>g acc. map2 (map2 (+)) acc g) rest f)"

text \<open>
  The loop of \<open>get_direct_beam_position\<close>: \<open>c[index] = refine_beam_position(...)\<close> stores
  the refined position in a row of an integer array.
\<close>

fun refine_all :: "real list list list \<Rightarrow> int \<times> int \<Rightarrow> real \<Rightarrow> (error + (int \<times> int) list) option" where
  "refine_all [] mref radius = Some (Inr [])"
| "refine_all (z # zs) mref radius =
     (case refine_beam_position z mref radius of
        None \<Rightarrow> None
      | Some (Inl e) \<Rightarrow> Some (Inl e)
      | Some (Inr (c0, c1)) \<Rightarrow>
          (case refine_all zs mref radius of
             None \<Rightarrow> None
           | Some (Inl e) \<Rightarrow> Some (Inl e)
           | Some (Inr cs) \<Rightarrow> Some (Inr ((astype_int c0, astype_int c1) # cs))))"

text \<open>
  \<open>get_direct_beam_position\<close>: the seed \<open>mref\<close> is the rounded mean position of the maxima
  of the summed frames.
\<close>

definition get_direct_beam_position ::
  "real ElectronDiffraction \<Rightarrow> real \<Rightarrow> (error + (int \<times> int) list) option" where
  "get_direct_beam_position s radius =
     (let dp_sum = stack_sum (data s)
      in case amax dp_sum of
           Inl e \<Rightarrow> Some (Inl e)
         | Inr m \<Rightarrow>
             let maxes = where_eq dp_sum m;
                 mref = (astype_int (rint (average (map fst maxes))),
                         astype_int (rint (average (map snd maxes))))
             in refine_all (data s) mref radius)"

text \<open>
  \<open>get_direct_beam_shifts\<close>. The optional \<open>centers\<close> is an array given as the list of its
  rows; \<open>centers == None\<close> is the test for an absent argument. \<open>has_shape\<close> compares the
  shape of such an array with \<open>(n, k)\<close>.
\<close>

definition has_shape :: "'a list list \<Rightarrow> nat \<times> nat \<Rightarrow> bool" where
  "has_shape a shape \<longleftrightarrow> length a = fst shape \<and> (\<forall>row \<in> set a. length row = snd shape)"

definition get_direct_beam_shifts ::
  "real ElectronDiffraction \<Rightarrow> real list list option \<Rightarrow> real \<Rightarrow> (error + real list list) option" where
  "get_direct_beam_shifts s centers radius =
     (case (case centers of
              None \<Rightarrow>
                (case get_direct_beam_position s radius of
                   None \<Rightarrow> None
                 | Some (Inl e) \<Rightarrow> Some (Inl e)
                 | Some (Inr c) \<Rightarrow> Some (Inr (map (\<lambda>(c0, c1). [real_of_int c0, real_of_int c1]) c)))
            | Some c \<Rightarrow> Some (Inr c)) of
        None \<Rightarrow> None
      | Some (Inl e) \<Rightarrow> Some (Inl e)
      | Some (Inr centers') \<Rightarrow>
          if \<not> has_shape centers' (navigation_size s, 2) then Some (Inl ValueError)
          else Some (Inr (map (\<lambda>row. map2 (-) row
                                  [(real (fst (signal_shape s)) - 1) / 2,
                                   (real (snd (signal_shape s)) - 1) / 2]) centers')))"

section \<open>GeometricTransformer\<close>

text \<open>
  The transform objects of \<open>skimage.transform\<close>, as far as the code builds them:
  a translation, an affine transform given by its matrix, the sum \<open>a + b\<close> (first \<open>a\<close>,
  then \<open>b\<close>) and the inverse. \<open>tf.warp\<close> itself belongs to the library and is a
  parameter \<open>tf_warp\<close> of the functions below.
\<close>

datatype transform =
  SimilarityTransform real real
| AffineTransform "real list list"
| Plus transform transform
| Inverse transform

definition affine_transformation ::
  "('a list list \<Rightarrow> transform \<Rightarrow> nat \<Rightarrow> 'a list list) \<Rightarrow> 'a list list \<Rightarrow> nat \<Rightarrow> real list list
   \<Rightarrow> 'a list list" where
  "affine_transformation tf_warp z order matrix =
     (let shift_y = real (fst (shape2 z)) / 2; shift_x = real (snd (shape2 z)) / 2;
          tf_shift = SimilarityTransform (- shift_x) (- shift_y);
          tf_shift_inv = SimilarityTransform shift_x shift_y;
          transformation = AffineTransform matrix
      in tf_warp z (Inverse (Plus tf_shift (Plus transformation tf_shift_inv))) order)"

text \<open>
  The module-level names that are bound to a frame transformation. A name that is not
  bound raises \<open>NameError\<close> where it is evaluated.
\<close>

definition module_functions ::
  "('a list list \<Rightarrow> transform \<Rightarrow> nat \<Rightarrow> 'a list list)
   \<Rightarrow> (string \<times> ('a list list \<Rightarrow> nat \<Rightarrow> real list list \<Rightarrow> 'a list list)) list" where
  "module_functions tf_warp = [(''affine_transformation'', affine_transformation tf_warp)]"

definition lookup_function ::
  "('a list list \<Rightarrow> transform \<Rightarrow> nat \<Rightarrow> 'a list list) \<Rightarrow> string
   \<Rightarrow> error + ('a list list \<Rightarrow> nat \<Rightarrow> real list list \<Rightarrow> 'a list list)" where
  "lookup_function tf_warp name =
     (case map_of (module_functions tf_warp) name of None \<Rightarrow> Inl NameError | Some f \<Rightarrow> Inr f)"

text \<open>
  The methods below change the signal in place. Each returns the exception it raised, if
  any, and the signal as it is afterwards.
\<close>

definition correct_geometric_distortion ::
  "('a list list \<Rightarrow> transform \<Rightarrow> nat \<Rightarrow> 'a list list) \<Rightarrow> 'a ElectronDiffraction \<Rightarrow> real list list
   \<Rightarrow> error option \<times> 'a ElectronDiffraction" where
  "correct_geometric_distortion tf_warp s D =
     (case lookup_function tf_warp ''affine_transformation'' of
        Inl e \<Rightarrow> (Some e, s)
      | Inr f \<Rightarrow> (None, map_signal (\<lambda>z. f z 3 D) s))"

definition rotate_patterns ::
  "('a list list \<Rightarrow> transform \<Rightarrow> nat \<Rightarrow> 'a list list) \<Rightarrow> 'a ElectronDiffraction \<Rightarrow> real
   \<Rightarrow> error option \<times> 'a ElectronDiffraction" where
  "rotate_patterns tf_warp s angle =
     (let a = angle * pi / 180;
          t = [[cos a, sin a, 0],
               [- sin a, cos a, 0],
               [0, 0, 1]]
      in case lookup_function tf_warp ''_affine_transformation'' of
           Inl e \<Rightarrow> (Some e, s)
         | Inr f \<Rightarrow> (None, map_signal (\<lambda>z. f z 3 t) s))"

section \<open>BackgroundSubtractor\<close>

text \<open>\<open>np.max\<close> on floating-point values: a NaN wins.\<close>

fun flt_max :: "flt \<Rightarrow> flt \<Rightarrow> flt" where
  "flt_max NaN _ = NaN"
| "flt_max _ NaN = NaN"
| "flt_max PInf _ = PInf"
| "flt_max _ PInf = PInf"
| "flt_max NInf b = b"
| "flt_max a NInf = a"
| "flt_max (Fin a) (Fin b) = Fin (max a b)"

definition data_max :: "flt list list list \<Rightarrow> error + flt" where
  "data_max d = (case concat (concat d) of [] \<Rightarrow> Inl ValueError | v # vs \<Rightarrow> Inr (fold flt_max vs v))"

text \<open>\<open>skimage.morphology.square(n)\<close>: an \<open>n\<close> by \<open>n\<close> array of ones.\<close>

definition square :: "nat \<Rightarrow> nat list list" where
  "square n = replicate n (replicate n 1)"

text \<open>
  \<open>_regional_filter\<close>. \<open>skimage.morphology.reconstruction\<close> (called with
  \<open>method='dilation'\<close>) is the parameter \<open>reconstruction\<close>.
\<close>

definition regional_filter ::
  "(flt list list \<Rightarrow> flt list list \<Rightarrow> flt list list) \<Rightarrow> real \<Rightarrow> flt list list \<Rightarrow> flt list list" where
  "regional_filter reconstruction h z =
     (let seed = map (map (\<lambda>v. fsub v (Fin h))) z;
          mask' = z;
          dilated = reconstruction seed mask'
      in map2 (map2 fsub) z dilated)"

text \<open>
  \<open>remove_background\<close>; \<open>skimage.filters.rank.mean\<close> is the parameter \<open>rank_mean\<close>, which
  takes the structuring element and the frame.
\<close>

definition remove_background ::
  "(flt list list \<Rightarrow> flt list list \<Rightarrow> flt list list) \<Rightarrow> (nat list list \<Rightarrow> flt list list \<Rightarrow> flt list list)
   \<Rightarrow> flt ElectronDiffraction \<Rightarrow> real \<Rightarrow> error option \<times> flt ElectronDiffraction" where
  "remove_background reconstruction rank_mean s h =
     (case data_max (data s) of
        Inl e \<Rightarrow> (Some e, s)
      | Inr m1 \<Rightarrow>
          let s1 = s\<lparr>data := map (map (map (\<lambda>v. fdiv v m1))) (data s)\<rparr>;
              s2 = map_signal (regional_filter reconstruction h) s1;
              s3 = map_signal (rank_mean (square 3)) s2
          in case data_max (data s3) of
               Inl e \<Rightarrow> (Some e, s3)
             | Inr m2 \<Rightarrow> (None, s3\<lparr>data := map (map (map (\<lambda>v. fdiv v m2))) (data s3)\<rparr>))"

section \<open>VacuumMaskBuilder\<close>

text \<open>\<open>get_direct_beam_mask\<close>, with its default for an absent \<open>center\<close>.\<close>

definition get_direct_beam_mask ::
  "real ElectronDiffraction \<Rightarrow> real \<Rightarrow> (real \<times> real) option \<Rightarrow> bool list list" where
  "get_direct_beam_mask s radius center =
     (let shape = signal_shape s;
          center' = (case center of
                       None \<Rightarrow> ((real (snd shape) - 1) / 2, (real (fst shape) - 1) / 2)
                     | Some c \<Rightarrow> c)
      in circular_mask shape radius center')"

text \<open>
  \<open>self * db\<close> multiplies every frame by the inverted beam mask and \<open>max((-1, -2))\<close>
  takes the maximum of every frame.
\<close>

fun frame_maxima :: "real list list list \<Rightarrow> bool list list \<Rightarrow> error + real list" where
  "frame_maxima [] db = Inr []"
| "frame_maxima (z # zs) db =
     (case mul_mask z db of
        Inl e \<Rightarrow> Inl e
      | Inr diff_only \<Rightarrow>
          (case amax diff_only of
             Inl e \<Rightarrow> Inl e
           | Inr v \<Rightarrow> (case frame_maxima zs db of Inl e \<Rightarrow> Inl e | Inr vs \<Rightarrow> Inr (v # vs))))"

text \<open>
  \<open>get_vacuum_mask\<close>. \<open>scipy.ndimage\<close>'s \<open>binary_dilation\<close> and \<open>binary_erosion\<close> are
  parameters that take the \<open>border_value\<close> and the navigation mask.
\<close>

definition get_vacuum_mask ::
  "(bool \<Rightarrow> bool list \<Rightarrow> bool list) \<Rightarrow> (bool \<Rightarrow> bool list \<Rightarrow> bool list)
   \<Rightarrow> real ElectronDiffraction \<Rightarrow> real \<Rightarrow> (real \<times> real) option \<Rightarrow> real \<Rightarrow> bool \<Rightarrow> bool
   \<Rightarrow> error + bool list" where
  "get_vacuum_mask binary_dilation binary_erosion s radius center threshold closing opening =
     (let db = map (map Not) (get_direct_beam_mask s radius center)
      in case frame_maxima (data s) db of
           Inl e \<Rightarrow> Inl e
         | Inr maxima \<Rightarrow>
             let mask0 = map (\<lambda>v. v \<le> threshold) maxima;
                 mask1 = (if closing
                          then binary_erosion True (binary_dilation False mask0)
                          else mask0);
                 mask2 = (if opening
                          then binary_dilation False (binary_erosion True mask1)
                          else mask1)
             in Inr mask2)"

section \<open>The operations in the words of the specification\<close>

text \<open>
  The radial profile: the pixels of a frame, their truncated Euclidean distance from the
  center \<open>(row, column)\<close>, the pixels of bin \<open>r\<close>, the number of bins \<open>max(r) + 1\<close>, and
  the mean of a bin, missing (\<open>NaN\<close>) for a bin without pixels.
\<close>

definition trunc_dist :: "real \<times> real \<Rightarrow> nat \<times> nat \<Rightarrow> nat" where
  "trunc_dist center p = nat \<lfloor>sqrt ((real (snd p) - snd center)\<^sup>2 + (real (fst p) - fst center)\<^sup>2)\<rfloor>"

definition frame_pixels :: "'a list list \<Rightarrow> (nat \<times> nat) set" where
  "frame_pixels z = {(y, x). y < fst (shape2 z) \<and> x < snd (shape2 z)}"

definition bin_pixels :: "'a list list \<Rightarrow> real \<times> real \<Rightarrow> nat \<Rightarrow> (nat \<times> nat) set" where
  "bin_pixels z center r = {p \<in> frame_pixels z. trunc_dist center p = r}"

definition profile_length :: "'a list list \<Rightarrow> real \<times> real \<Rightarrow> nat" where
  "profile_length z center =
     (if frame_pixels z = {} then 0 else Suc (Max (trunc_dist center ` frame_pixels z)))"

definition exact_bin_mean :: "real list list \<Rightarrow> real \<times> real \<Rightarrow> nat \<Rightarrow> flt" where
  "exact_bin_mean z center r =
     (if card (bin_pixels z center r) = 0 then NaN
      else Fin ((\<Sum>(y, x) \<in> bin_pixels z center r. z ! y ! x) / real (card (bin_pixels z center r))))"

text \<open>
  The numbers on which the circular mask is computed without rounding error: the multiples
  of \<open>1/1024\<close> of magnitude at most \<open>16384\<close>. \<open>grid p B\<close> holds the multiples \<open>k / 2 ^ p\<close>
  with \<open>|k| \<le> B\<close>.
\<close>

definition on_grid :: "real \<Rightarrow> bool" where
  "on_grid x \<longleftrightarrow> x * 1024 = of_int \<lfloor>x * 1024\<rfloor> \<and> \<bar>x\<bar> \<le> 16384"

definition grid :: "nat \<Rightarrow> int \<Rightarrow> real \<Rightarrow> bool" where
  "grid p B x \<longleftrightarrow> (\<exists>k::int. x = of_int k / 2 ^ p \<and> \<bar>k\<bar> \<le> B)"

section \<open>Properties of double-precision arithmetic\<close>

lemma rne_of_int: "rne (of_int k) = k"
  by (simp add: rne_def)

lemma rne_ge:
  assumes "of_int m \<le> x"
  shows "m \<le> rne x"
proof -
  from assms have "m \<le> \<lfloor>x\<rfloor>" by (simp add: le_floor_iff)
  then show ?thesis by (auto simp: rne_def Let_def)
qed

lemma rne_le:
  assumes "x \<le> of_int m"
  shows "rne x \<le> m"
proof (cases "\<lfloor>x\<rfloor> < m")
  case True
  then show ?thesis by (auto simp: rne_def Let_def)
next
  case False
  with assms have "x = of_int m"
    by (smt (verit) floor_le_iff le_floor_iff not_less of_int_floor_le order_antisym)
  then show ?thesis by (simp add: rne_of_int)
qed

lemma two_powi_nat: "0 \<le> e \<Longrightarrow> (2::real) powi e = 2 ^ nat e"
  by (simp add: power_int_def)

lemma two_powi_neg: "0 \<le> b \<Longrightarrow> (2::real) powi (- b) = 1 / 2 ^ nat b"
  by (simp only: power_int_minus two_powi_nat inverse_eq_divide)

lemma expo_ge_one:
  assumes "1 \<le> \<bar>x\<bar>"
  shows "0 \<le> expo x" and "2 powi expo x \<le> \<bar>x\<bar>" and "\<bar>x\<bar> < 2 powi (expo x + 1)"
proof -
  let ?n = "\<lfloor>\<bar>x\<bar>\<rfloor>"
  from assms have n: "0 < ?n" by simp
  from bitlen_bounds [OF n]
  have lo: "2 ^ nat (bitlen ?n - 1) \<le> ?n" and hi: "?n < 2 ^ nat (bitlen ?n)" by simp_all
  have e: "expo x = bitlen ?n - 1" using assms by (simp add: expo_def)
  have b1: "1 \<le> bitlen ?n" using n by (simp add: bitlen_alt_def)
  then show "0 \<le> expo x" by (simp add: e)
  have "(2::real) powi expo x = of_int (2 ^ nat (bitlen ?n - 1))"
    using b1 by (simp add: e two_powi_nat)
  also have "\<dots> \<le> of_int ?n" using lo by (simp only: of_int_le_iff)
  also have "\<dots> \<le> \<bar>x\<bar>" by simp
  finally show "2 powi expo x \<le> \<bar>x\<bar>" .
  from hi have "?n + 1 \<le> 2 ^ nat (bitlen ?n)" by simp
  then have "real_of_int (?n + 1) \<le> of_int (2 ^ nat (bitlen ?n))" by (simp only: of_int_le_iff)
  moreover have "\<bar>x\<bar> < real_of_int ?n + 1" by linarith
  moreover have "(2::real) powi (expo x + 1) = of_int (2 ^ nat (bitlen ?n))"
    using b1 by (simp add: e two_powi_nat)
  ultimately show "\<bar>x\<bar> < 2 powi (expo x + 1)" by linarith
qed

lemma expo_lt_one:
  assumes "x \<noteq> 0" and "\<bar>x\<bar> < 1"
  shows "2 powi expo x \<le> \<bar>x\<bar>" and "\<bar>x\<bar> < 2 powi (expo x + 1)"
proof -
  define y where "y = 1 / \<bar>x\<bar>"
  define n where "n = \<lfloor>y\<rfloor>"
  define b where "b = bitlen n - 1"
  from assms have y: "1 < y" by (simp add: y_def)
  then have n: "0 < n" by (simp add: n_def)
  from bitlen_bounds [OF n]
  have lo: "2 ^ nat b \<le> n" and hi: "n < 2 ^ nat (bitlen n)" by (simp_all add: b_def)
  have b1: "1 \<le> bitlen n" using n by (simp add: bitlen_alt_def)
  then have b0: "0 \<le> b" and nb: "nat (bitlen n) = Suc (nat b)" by (simp_all add: b_def)
  have xpos: "0 < \<bar>x\<bar>" using assms by simp
  have xy: "\<bar>x\<bar> = 1 / y" by (simp add: y_def)
  have ypos: "0 < y" using y by simp
  have "real_of_int (2 ^ nat b) \<le> of_int n" using lo by (simp only: of_int_le_iff)
  also have "\<dots> \<le> y" by (simp add: n_def)
  finally have ylo: "2 ^ nat b \<le> y" by simp
  from hi have "n + 1 \<le> 2 ^ nat (bitlen n)" by simp
  then have "real_of_int (n + 1) \<le> of_int (2 ^ nat (bitlen n))" by (simp only: of_int_le_iff)
  then have c1: "real_of_int n + 1 \<le> 2 * 2 ^ nat b" by (simp add: nb)
  have c2: "y < real_of_int n + 1" unfolding n_def by linarith
  from c1 c2 have yhi: "y < 2 * 2 ^ nat b" by linarith
  have p: "0 < (2::real) ^ nat b" by simp
  from ylo p have "inverse y \<le> inverse (2 ^ nat b)" by (rule le_imp_inverse_le)
  then have xhi: "\<bar>x\<bar> \<le> 1 / 2 ^ nat b"
    unfolding xy by (simp only: inverse_eq_divide)
  from yhi ypos have "inverse (2 * 2 ^ nat b) < inverse y" by (rule less_imp_inverse_less)
  then have xlo: "1 / (2 * 2 ^ nat b) < \<bar>x\<bar>"
    unfolding xy by (simp only: inverse_eq_divide)
  have e_def: "expo x = (if \<bar>x\<bar> * 2 ^ nat b = 1 then - b else - b - 1)"
    using assms by (simp add: expo_def Let_def b_def n_def y_def)
  have pm: "(2::real) powi (- b) = 1 / 2 ^ nat b"
    using b0 by (rule two_powi_neg)
  have "(2::real) powi (- (b + 1)) = 1 / 2 ^ nat (b + 1)"
    using b0 by (intro two_powi_neg) simp
  moreover have "nat (b + 1) = Suc (nat b)" using b0 by simp
  moreover have "- (b + 1) = - b - 1" by simp
  ultimately have pm1: "(2::real) powi (- b - 1) = 1 / (2 * 2 ^ nat b)"
    by (simp only: power_Suc)
  have eq_iff: "\<bar>x\<bar> * 2 ^ nat b = 1 \<longleftrightarrow> \<bar>x\<bar> = 1 / 2 ^ nat b"
    using p by (simp add: field_simps)
  show "2 powi expo x \<le> \<bar>x\<bar>"
  proof (cases "\<bar>x\<bar> * 2 ^ nat b = 1")
    case True
    then have "expo x = - b" by (simp add: e_def)
    with True show ?thesis by (simp only: pm eq_iff)
  next
    case False
    then have "expo x = - b - 1" by (simp add: e_def)
    with xlo show ?thesis by (simp only: pm1 less_imp_le)
  qed
  show "\<bar>x\<bar> < 2 powi (expo x + 1)"
  proof (cases "\<bar>x\<bar> * 2 ^ nat b = 1")
    case True
    then have e: "expo x = - b" by (simp add: e_def)
    from True have "\<bar>x\<bar> = 2 powi (- b)" by (simp only: pm eq_iff)
    also have "\<dots> < 2 powi (- b + 1)" by (rule power_int_strict_increasing) simp_all
    finally show ?thesis by (simp only: e)
  next
    case False
    then have e: "expo x + 1 = - b" by (simp add: e_def)
    from False xhi have "\<bar>x\<bar> < 1 / 2 ^ nat b" by (simp only: eq_iff)
    then show ?thesis by (simp only: e pm)
  qed
qed

lemma expo_bounds:
  assumes "x \<noteq> 0"
  shows "2 powi expo x \<le> \<bar>x\<bar>" and "\<bar>x\<bar> < 2 powi (expo x + 1)"
  using assms expo_ge_one(2,3) [of x] expo_lt_one [of x] by (cases "1 \<le> \<bar>x\<bar>"; simp)+

lemma expo_unique:
  assumes "2 powi e \<le> \<bar>x\<bar>" and "\<bar>x\<bar> < 2 powi (e + 1)"
  shows "expo x = e"
proof -
  have "0 < (2::real) powi e" by simp
  with assms(1) have "0 < \<bar>x\<bar>" by linarith
  then have nz: "x \<noteq> 0" by simp
  from expo_bounds [OF nz] assms
  have "(2::real) powi e < 2 powi (expo x + 1)" and "(2::real) powi expo x < 2 powi (e + 1)"
    by linarith+
  then have "e < expo x + 1" and "expo x < e + 1"
    by (meson not_less power_int_increasing one_le_numeral leD)+
  then show ?thesis by simp
qed

lemma expo_less:
  assumes "x \<noteq> 0" and "\<bar>x\<bar> < 2 powi e"
  shows "expo x < e"
proof -
  from expo_bounds(1) [OF assms(1)] assms(2) have "(2::real) powi expo x < 2 powi e" by linarith
  then show ?thesis by (meson not_less power_int_increasing one_le_numeral leD)
qed

lemma fl_exact:
  assumes x: "x = of_int k / 2 ^ p" and k: "\<bar>k\<bar> < 2 ^ 53" and p: "p \<le> 1074"
  shows "fl x = Fin x"
proof (cases "x = 0")
  case True
  then show ?thesis by (simp add: fl_def)
next
  case False
  define E where "E = max (expo x) (- 1022) - 52"
  define m where "m = nat (- int p - E)"
  have xabs: "\<bar>x\<bar> = of_int \<bar>k\<bar> / 2 ^ p" by (simp add: x)
  from k have "real_of_int \<bar>k\<bar> < of_int (2 ^ 53)" by (simp only: of_int_less_iff)
  then have "real_of_int \<bar>k\<bar> / 2 ^ p < 2 ^ 53 / 2 ^ p"
    by (simp add: divide_strict_right_mono)
  also have "(2::real) ^ 53 / 2 ^ p = 2 powi (53 - int p)"
    by (simp add: power_int_diff)
  finally have xlt: "\<bar>x\<bar> < 2 powi (53 - int p)" by (simp only: xabs)
  from expo_less [OF False xlt] have ex: "expo x < 53 - int p" .
  with p have E: "E \<le> - int p" by (simp add: E_def)
  then have m: "int m = - int p - E" by (simp add: m_def)
  have "(2::real) powi (- int p) = 2 powi (int m + E)" by (simp add: m)
  also have "\<dots> = 2 powi int m * 2 powi E" by (rule power_int_add) simp
  finally have split: "(2::real) powi (- int p) = 2 ^ m * 2 powi E" by simp
  have "x = of_int k * 2 powi (- int p)"
    by (simp add: x power_int_minus divide_inverse)
  then have xe: "x = of_int (k * 2 ^ m) * 2 powi E"
    by (simp add: split)
  have nz: "(2::real) powi E \<noteq> 0" by simp
  have quot: "x / 2 powi E = of_int (k * 2 ^ m)"
    by (subst xe) (simp only: nonzero_mult_div_cancel_right [OF nz])
  have q: "of_int (rne (x / 2 powi E)) * 2 powi E = x"
    by (simp only: quot rne_of_int) (simp only: xe [symmetric])
  from ex have "\<not> 1024 \<le> expo x" by simp
  with False show ?thesis
    by (simp add: fl_def Let_def E_def [symmetric] q)
qed

lemma fl_grid: "grid p B x \<Longrightarrow> B < 2 ^ 53 \<Longrightarrow> p \<le> 1074 \<Longrightarrow> fl x = Fin x"
  unfolding grid_def by (auto intro!: fl_exact)

lemma grid_add: "grid p B1 x \<Longrightarrow> grid p B2 y \<Longrightarrow> grid p (B1 + B2) (x + y)"
proof -
  assume "grid p B1 x" and "grid p B2 y"
  then obtain k l where x: "x = of_int k / 2 ^ p" and k: "\<bar>k\<bar> \<le> B1"
    and y: "y = of_int l / 2 ^ p" and l: "\<bar>l\<bar> \<le> B2"
    unfolding grid_def by blast
  have "x + y = of_int (k + l) / 2 ^ p" by (simp add: x y add_divide_distrib)
  moreover from k l have "\<bar>k + l\<bar> \<le> B1 + B2" by linarith
  ultimately show ?thesis unfolding grid_def by blast
qed

lemma grid_neg: "grid p B x \<Longrightarrow> grid p B (- x)"
proof -
  assume "grid p B x"
  then obtain k where x: "x = of_int k / 2 ^ p" and k: "\<bar>k\<bar> \<le> B"
    unfolding grid_def by blast
  have "- x = of_int (- k) / 2 ^ p" by (simp add: x)
  moreover from k have "\<bar>- k\<bar> \<le> B" by simp
  ultimately show ?thesis unfolding grid_def by blast
qed

lemma grid_mult: "grid p B1 x \<Longrightarrow> grid q B2 y \<Longrightarrow> grid (p + q) (B1 * B2) (x * y)"
proof -
  assume "grid p B1 x" and "grid q B2 y"
  then obtain k l where x: "x = of_int k / 2 ^ p" and k: "\<bar>k\<bar> \<le> B1"
    and y: "y = of_int l / 2 ^ q" and l: "\<bar>l\<bar> \<le> B2"
    unfolding grid_def by blast
  have "x * y = of_int (k * l) / 2 ^ (p + q)" by (simp add: x y power_add)
  moreover from k l have "\<bar>k * l\<bar> \<le> B1 * B2"
    by (simp add: abs_mult mult_mono)
  ultimately show ?thesis unfolding grid_def by blast
qed

lemma grid_of_nat: "n \<le> N \<Longrightarrow> grid p (int N * 2 ^ p) (real n)"
proof -
  assume "n \<le> N"
  then have "\<bar>int n * 2 ^ p\<bar> \<le> int N * 2 ^ p" by (simp add: abs_mult)
  moreover have "real n = of_int (int n * 2 ^ p) / 2 ^ p" by simp
  ultimately show ?thesis unfolding grid_def by blast
qed

lemma grid_mono: "grid p B x \<Longrightarrow> B \<le> B' \<Longrightarrow> grid p B' x"
proof -
  assume "grid p B x" and le: "B \<le> B'"
  then obtain k where x: "x = of_int k / 2 ^ p" and k: "\<bar>k\<bar> \<le> B"
    unfolding grid_def by blast
  from k le have "\<bar>k\<bar> \<le> B'" by simp
  with x show ?thesis unfolding grid_def by blast
qed

lemma on_grid_grid: "on_grid x \<Longrightarrow> grid 10 (2 ^ 24) x"
proof -
  assume g: "on_grid x"
  define k where "k = \<lfloor>x * 1024\<rfloor>"
  from g have eq: "x * 1024 = of_int k" and b: "\<bar>x\<bar> \<le> 16384"
    by (simp_all add: on_grid_def k_def)
  from eq have x: "x = of_int k / 2 ^ 10" by simp
  have "\<bar>real_of_int k\<bar> = \<bar>x\<bar> * 1024" by (simp add: eq [symmetric] abs_mult)
  with b have "\<bar>real_of_int k\<bar> \<le> 16384 * 1024" by simp
  then have "real_of_int \<bar>k\<bar> \<le> real_of_int (2 ^ 24)" by simp
  then have "\<bar>k\<bar> \<le> 2 ^ 24" by (simp only: of_int_le_iff)
  with x show ?thesis unfolding grid_def by blast
qed

lemma dadd_grid:
  assumes "grid p B1 x" and "grid p B2 y" and "B1 + B2 < 2 ^ 53" and "p \<le> 1074"
  shows "dadd (Fin x) (Fin y) = Fin (x + y)"
  using fl_grid [OF grid_add [OF assms(1,2)] assms(3,4)] by simp

lemma dsub_grid:
  assumes "grid p B1 x" and "grid p B2 y" and "B1 + B2 < 2 ^ 53" and "p \<le> 1074"
  shows "dsub (Fin x) (Fin y) = Fin (x - y)"
  using dadd_grid [OF assms(1) grid_neg [OF assms(2)] assms(3,4)] by (simp add: dsub_def)

lemma dmul_grid:
  assumes "grid p B1 x" and "grid q B2 y" and "B1 * B2 < 2 ^ 53" and "p + q \<le> 1074"
  shows "dmul (Fin x) (Fin y) = Fin (x * y)"
  using fl_grid [OF grid_mult [OF assms(1,2)] assms(3,4)] by simp

lemma grid_index: "k < n \<Longrightarrow> n \<le> 16384 \<Longrightarrow> grid 10 (2 ^ 24) (real k)"
proof -
  assume "k < n" and "n \<le> 16384"
  then have "k \<le> 16384" by simp
  from grid_of_nat [OF this, of 10] show ?thesis by simp
qed

section \<open>Properties of the circular mask\<close>

lemma length_ogrid_axis: "length (ogrid_axis (- c) (real n - c)) = n"
  by (simp add: ogrid_axis_def)

lemma nth_ogrid_axis: "k < n \<Longrightarrow> ogrid_axis (- c) (real n - c) ! k = real k - c"
  by (simp add: ogrid_axis_def)

lemma length_circular_mask: "length (circular_mask shape radius center) = snd shape"
  by (simp add: circular_mask_def Let_def length_ogrid_axis)

lemma length_circular_mask_row:
  "row \<in> set (circular_mask shape radius center) \<Longrightarrow> length row = fst shape"
  by (auto simp: circular_mask_def Let_def length_ogrid_axis)

lemma shape2_circular_mask:
  "0 < snd shape \<Longrightarrow> shape2 (circular_mask shape radius center) = (snd shape, fst shape)"
proof -
  assume pos: "0 < snd shape"
  let ?m = "circular_mask shape radius center"
  from pos have "?m \<noteq> []"
    using length_circular_mask [of shape radius center] by auto
  then obtain row rest where m: "?m = row # rest"
    by (cases ?m) auto
  then have "row \<in> set ?m" by simp
  then have "length row = fst shape" by (rule length_circular_mask_row)
  with m show ?thesis
    using length_circular_mask [of shape radius center] by (simp add: shape2_def)
qed

lemma nth_circular_mask:
  assumes "y < snd shape" and "x < fst shape"
  shows "circular_mask shape radius center ! y ! x \<longleftrightarrow>
         (real x - fst center) * (real x - fst center)
           + (real y - snd center) * (real y - snd center) \<le> radius * radius"
  using assms by (simp add: circular_mask_def Let_def length_ogrid_axis nth_ogrid_axis)

lemma ogrid_double_exact:
  assumes c: "grid 10 (2 ^ 24) c" and n: "n \<le> 16384"
  shows "ogrid_double (- c) (dsub (Fin (real n)) (Fin c)) = Inr (map (\<lambda>k. Fin (real k - c)) [0..<n])"
proof -
  have gn: "grid 10 (2 ^ 24) (real n)"
    using grid_of_nat [OF n, of 10] by simp
  have stop: "dsub (Fin (real n)) (Fin c) = Fin (real n - c)"
    by (rule dsub_grid [OF gn c]) simp_all
  have gs: "grid 10 (2 ^ 24 + 2 ^ 24) (real n - c)"
    using grid_add [OF gn grid_neg [OF c]] by simp
  have "dsub (Fin (real n - c)) (Fin (- c)) = Fin (real n - c - (- c))"
    by (rule dsub_grid [OF gs grid_neg [OF c]]) simp_all
  then have len: "dsub (Fin (real n - c)) (Fin (- c)) = Fin (real n)" by simp
  have "map (\<lambda>k. dadd (Fin (real k)) (Fin (- c))) [0..<n] = map (\<lambda>k. Fin (real k - c)) [0..<n]"
  proof (rule map_cong [OF refl])
    fix k assume "k \<in> set [0..<n]"
    then have "k < n" by simp
    from grid_index [OF this n] have gk: "grid 10 (2 ^ 24) (real k)" .
    have "dadd (Fin (real k)) (Fin (- c)) = Fin (real k + (- c))"
      by (rule dadd_grid [OF gk grid_neg [OF c]]) simp_all
    then show "dadd (Fin (real k)) (Fin (- c)) = Fin (real k - c)" by simp
  qed
  then show ?thesis
    by (simp add: ogrid_double_def stop len)
qed

lemma disc_entry_exact:
  assumes a: "grid 10 (2 ^ 24) a" and b: "grid 10 (2 ^ 24) b" and r: "grid 10 (2 ^ 24) r"
    and i: "grid 10 (2 ^ 24) (real i)" and j: "grid 10 (2 ^ 24) (real j)"
  shows "dle (dadd (dmul (Fin (real j - a)) (Fin (real j - a)))
                   (dmul (Fin (real i - b)) (Fin (real i - b))))
             (dmul (Fin r) (Fin r))
         \<longleftrightarrow> (real j + (- a)) * (real j + (- a)) + (real i + (- b)) * (real i + (- b)) \<le> r * r"
proof -
  have gx: "grid 10 (2 ^ 25) (real j - a)"
    using grid_add [OF j grid_neg [OF a]] by simp
  have gy: "grid 10 (2 ^ 25) (real i - b)"
    using grid_add [OF i grid_neg [OF b]] by simp
  have xx: "dmul (Fin (real j - a)) (Fin (real j - a)) = Fin ((real j - a) * (real j - a))"
    by (rule dmul_grid [OF gx gx]) simp_all
  have yy: "dmul (Fin (real i - b)) (Fin (real i - b)) = Fin ((real i - b) * (real i - b))"
    by (rule dmul_grid [OF gy gy]) simp_all
  have rr: "dmul (Fin r) (Fin r) = Fin (r * r)"
    by (rule dmul_grid [OF r r]) simp_all
  have gxx: "grid 20 (2 ^ 50) ((real j - a) * (real j - a))"
    using grid_mult [OF gx gx] by simp
  have gyy: "grid 20 (2 ^ 50) ((real i - b) * (real i - b))"
    using grid_mult [OF gy gy] by simp
  have sum: "dadd (Fin ((real j - a) * (real j - a))) (Fin ((real i - b) * (real i - b)))
             = Fin ((real j - a) * (real j - a) + (real i - b) * (real i - b))"
    by (rule dadd_grid [OF gxx gyy]) simp_all
  show ?thesis unfolding xx yy rr sum dle.simps by simp
qed

text \<open>
  C3, as the code computes it. The claim does not hold for every center: the comparison is
  made on rounded values. With radius \<open>1\<close> and the doubles nearest to \<open>0.6\<close> and \<open>0.8\<close> as
  center, the pixel \<open>(0, 0)\<close> is marked, although the exact sum of the two squares is
  greater than \<open>1\<close>.
\<close>

theorem circular_mask_rounding_example:
  "circular_mask_double (1, 1) 1
     (5404319552844595 / 9007199254740992, 3602879701896397 / 4503599627370496) = Inr [[True]] \<and>
   \<not> ((real 0 - 5404319552844595 / 9007199254740992)\<^sup>2
        + (real 0 - 3602879701896397 / 4503599627370496)\<^sup>2 \<le> 1\<^sup>2)"
  by code_simp

text \<open>
  C3, amended. For a center and a radius that are multiples of \<open>1/1024\<close> of magnitude at
  most \<open>16384\<close>, and extents \<open>shape[0]\<close>, \<open>shape[1]\<close> of at most \<open>16384\<close>, no operation
  rounds: the mask has \<open>shape[1]\<close> rows and \<open>shape[0]\<close> columns, and its entry at row \<open>y\<close>
  and column \<open>x\<close> is true if and only if
  \<open>(x - center.x)^2 + (y - center.y)^2 \<le> radius^2\<close> over the reals, where
  \<open>center = (center.x, center.y)\<close>.
\<close>

theorem circular_mask_double_pixel_iff:
  assumes a: "on_grid (fst center)" and b: "on_grid (snd center)" and r: "on_grid radius"
    and nx: "fst shape \<le> 16384" and ny: "snd shape \<le> 16384"
  shows "circular_mask_double shape radius center =
         Inr (map (\<lambda>y. map (\<lambda>x. (real x - fst center)\<^sup>2 + (real y - snd center)\<^sup>2 \<le> radius\<^sup>2)
                              [0..<fst shape]) [0..<snd shape])"
proof -
  note ga = on_grid_grid [OF a] and gb = on_grid_grid [OF b] and gr = on_grid_grid [OF r]
  have "map (\<lambda>i. map (\<lambda>j. dle (dadd (dmul (Fin (real j - fst center)) (Fin (real j - fst center)))
                                    (dmul (Fin (real i - snd center)) (Fin (real i - snd center))))
                              (dmul (Fin radius) (Fin radius))) [0..<fst shape]) [0..<snd shape]
        = map (\<lambda>i. map (\<lambda>j. (real j - fst center)\<^sup>2 + (real i - snd center)\<^sup>2 \<le> radius\<^sup>2)
                         [0..<fst shape]) [0..<snd shape]"
  proof (intro map_cong refl)
    fix i j assume "i \<in> set [0..<snd shape]" and "j \<in> set [0..<fst shape]"
    then have il: "i < snd shape" and jl: "j < fst shape" by simp_all
    note gi = grid_index [OF il ny] and gj = grid_index [OF jl nx]
    show "dle (dadd (dmul (Fin (real j - fst center)) (Fin (real j - fst center)))
                    (dmul (Fin (real i - snd center)) (Fin (real i - snd center))))
              (dmul (Fin radius) (Fin radius))
          = ((real j - fst center)\<^sup>2 + (real i - snd center)\<^sup>2 \<le> radius\<^sup>2)"
      using disc_entry_exact [OF ga gb gr gi gj] by (simp add: power2_eq_square)
  qed
  then show ?thesis
    by (simp add: circular_mask_double_def Let_def
          ogrid_double_exact [OF ga nx] ogrid_double_exact [OF gb ny] comp_def)
qed

theorem circular_mask_double_pixel_iff_witness:
  "on_grid (3 / 2) \<and> on_grid (1 / 2) \<and> on_grid 1 \<and> (3::nat) \<le> 16384 \<and>
   circular_mask_double (3, 3) 1 (3 / 2, 1 / 2)
     = Inr [[False, True, True], [False, True, True], [False, False, False]]"
proof -
  have g: "on_grid (3 / 2)" "on_grid (1 / 2)" "on_grid 1"
    by (simp_all add: on_grid_def)
  have up: "[0..<3] = [0, 1, 2]" by (simp add: upt_rec)
  from circular_mask_double_pixel_iff [of "(3 / 2, 1 / 2)" 1 "(3, 3)"] g
  show ?thesis by (simp add: up power2_eq_square)
qed

section \<open>Properties of the radial profile\<close>

lemma isqrt_bounds: "isqrt n * isqrt n \<le> n \<and> n < Suc (isqrt n) * Suc (isqrt n)"
proof (induction n rule: isqrt.induct)
  case (1 n)
  show ?case
  proof (cases "n < 4")
    case True
    then have "n = 0 \<or> n = 1 \<or> n = 2 \<or> n = 3" by auto
    then show ?thesis by (auto simp: isqrt.simps [of n])
  next
    case False
    define s where "s = isqrt (n div 4)"
    from "1.IH" [OF False] have lo: "s * s \<le> n div 4" and hi: "n div 4 < Suc s * Suc s"
      by (simp_all add: s_def)
    from lo have lo': "2 * s * (2 * s) \<le> n" by (simp add: algebra_simps)
    from hi have "Suc (n div 4) \<le> Suc s * Suc s" by simp
    then have "4 * Suc (n div 4) \<le> 4 * (Suc s * Suc s)" by (simp only: mult_le_mono2)
    moreover have "n < 4 * Suc (n div 4)" by simp
    ultimately have hi': "n < (2 * s + 2) * (2 * s + 2)" by (simp add: algebra_simps)
    have eq: "isqrt n = (if (2 * s + 1) * (2 * s + 1) \<le> n then 2 * s + 1 else 2 * s)"
      using False by (simp add: isqrt.simps [of n] s_def Let_def)
    show ?thesis
    proof (cases "(2 * s + 1) * (2 * s + 1) \<le> n")
      case True
      with eq hi' show ?thesis by (simp add: algebra_simps)
    next
      case False
      with eq lo' show ?thesis by (simp add: algebra_simps)
    qed
  qed
qed

lemma trunc_sqrt_code [code]: "trunc_sqrt v = isqrt (nat \<lfloor>v\<rfloor>)"
proof (cases "0 \<le> v")
  case False
  then have "sqrt v < 0" by simp
  then have "\<lfloor>sqrt v\<rfloor> \<le> 0" by (simp add: floor_le_iff)
  moreover from False have "\<lfloor>v\<rfloor> \<le> 0" by (simp add: floor_le_iff)
  ultimately show ?thesis by (simp add: trunc_sqrt_def isqrt.simps [of 0])
next
  case True
  define n where "n = nat \<lfloor>v\<rfloor>"
  define k where "k = isqrt n"
  from True have n_le: "real n \<le> v" and v_lt: "v < real n + 1"
    unfolding n_def by (simp_all add: of_nat_nat)
  from isqrt_bounds [of n] have lo: "k * k \<le> n" and hi: "n < Suc k * Suc k"
    by (simp_all add: k_def)
  from lo have "real (k * k) \<le> real n" by (simp only: of_nat_le_iff)
  with n_le have "(real k)\<^sup>2 \<le> v" by (simp add: power2_eq_square)
  then have low: "real k \<le> sqrt v" by (simp add: real_le_rsqrt)
  from hi have "Suc n \<le> Suc k * Suc k" by simp
  then have "real (Suc n) \<le> real (Suc k * Suc k)" by (simp only: of_nat_le_iff)
  with v_lt have "v < (real k + 1)\<^sup>2" by (simp add: power2_eq_square algebra_simps)
  then have high: "sqrt v < real k + 1" by (simp add: real_less_lsqrt)
  from low high have "\<lfloor>sqrt v\<rfloor> = int k" by (simp add: floor_eq_iff)
  then show ?thesis by (simp add: trunc_sqrt_def n_def k_def)
qed

lemma concat_map_product:
  "concat (map (\<lambda>y. map (f y) xs) ys) = map (\<lambda>(y, x). f y x) (List.product ys xs)"
  by (induction ys) (simp_all add: comp_def)

lemma rect_rows:
  assumes "rect z"
  shows "z = map (\<lambda>y. map (\<lambda>x. z ! y ! x) [0..<snd (shape2 z)]) [0..<fst (shape2 z)]"
proof (rule nth_equalityI)
  show "length z = length (map (\<lambda>y. map (\<lambda>x. z ! y ! x) [0..<snd (shape2 z)]) [0..<fst (shape2 z)])"
    by (simp add: shape2_def)
next
  fix i assume i: "i < length z"
  then have "z ! i \<in> set z" by simp
  with assms have len: "length (z ! i) = snd (shape2 z)" by (simp add: rect_def)
  have "z ! i = map (\<lambda>x. z ! i ! x) [0..<length (z ! i)]"
    by (simp add: map_nth)
  with len i show "z ! i = map (\<lambda>y. map (\<lambda>x. z ! y ! x) [0..<snd (shape2 z)]) [0..<fst (shape2 z)] ! i"
    by (simp add: shape2_def)
qed

lemma ravel_pixels:
  assumes "rect z"
  shows "concat z = map (\<lambda>(y, x). z ! y ! x) (pixels (shape2 z))"
proof -
  have "concat z = concat (map (\<lambda>y. map (\<lambda>x. z ! y ! x) [0..<snd (shape2 z)]) [0..<fst (shape2 z)])"
    using rect_rows [OF assms] by simp
  then show ?thesis by (simp only: concat_map_product pixels_def)
qed

lemma distinct_pixels: "distinct (pixels shape)"
  by (simp add: pixels_def distinct_product)

lemma set_pixels: "set (pixels shape) = {(y, x). y < fst shape \<and> x < snd shape}"
  by (auto simp: pixels_def)

lemma fold_weights_length:
  "length (fold (\<lambda>(i, w) acc. acc[i := acc ! i + w]) ps acc) = length acc"
  by (induction ps arbitrary: acc) (auto split: prod.splits)

lemma fold_weights_nth:
  fixes acc :: "'a::comm_monoid_add list"
  assumes "k < length acc"
  shows "fold (\<lambda>(i, w) acc. acc[i := acc ! i + w]) ps acc ! k
         = acc ! k + sum_list (map snd (filter (\<lambda>p. fst p = k) ps))"
  using assms
proof (induction ps arbitrary: acc)
  case Nil
  then show ?case by simp
next
  case (Cons p ps)
  obtain i w where p: "p = (i, w)" by (cases p)
  have "fold (\<lambda>(i, w) acc. acc[i := acc ! i + w]) (p # ps) acc ! k
        = fold (\<lambda>(i, w) acc. acc[i := acc ! i + w]) ps (acc[i := acc ! i + w]) ! k"
    by (simp add: p)
  also have "\<dots> = acc[i := acc ! i + w] ! k + sum_list (map snd (filter (\<lambda>p. fst p = k) ps))"
    using Cons.prems by (intro Cons.IH) simp
  also have "\<dots> = acc ! k + sum_list (map snd (filter (\<lambda>p. fst p = k) (p # ps)))"
    using Cons.prems by (cases "i = k") (simp_all add: p add.assoc)
  finally show ?case .
qed

lemma fold_count_as_weights:
  "fold (\<lambda>i acc. acc[i := acc ! i + (1::nat)]) xs acc
   = fold (\<lambda>(i, w) acc. acc[i := acc ! i + w]) (map (\<lambda>i. (i, 1)) xs) acc"
  by (induction xs arbitrary: acc) simp_all

lemma length_bincount: "length (exact_bincount xs) = exact_nbins xs"
  unfolding exact_bincount_def fold_count_as_weights by (simp only: fold_weights_length length_replicate)

lemma nth_bincount:
  assumes "k < exact_nbins xs"
  shows "exact_bincount xs ! k = length (filter (\<lambda>i. i = k) xs)"
proof -
  have "exact_bincount xs ! k
        = sum_list (map snd (filter (\<lambda>p. fst p = k) (map (\<lambda>i. (i, 1::nat)) xs)))"
    unfolding exact_bincount_def fold_count_as_weights using assms
    by (subst fold_weights_nth) simp_all
  also have "\<dots> = sum_list (map (\<lambda>i. 1) (filter (\<lambda>i. i = k) xs))"
    by (simp add: filter_map comp_def)
  also have "\<dots> = length (filter (\<lambda>i. i = k) xs)"
    by (simp add: sum_list_triv)
  finally show ?thesis .
qed

lemma set_pixels_frame: "set (pixels (shape2 z)) = frame_pixels z"
  by (auto simp: set_pixels frame_pixels_def)

lemma finite_bin_pixels: "finite (bin_pixels z center r)"
proof -
  have "bin_pixels z center r \<subseteq> set (pixels (shape2 z))"
    by (auto simp: bin_pixels_def set_pixels_frame)
  then show ?thesis by (rule finite_subset) simp
qed

lemma radial_bins_flat:
  "concat (map (\<lambda>y. map (\<lambda>x. trunc_sqrt ((real x - snd center)\<^sup>2 + (real y - fst center)\<^sup>2))
                          [0..<snd (shape2 z)]) [0..<fst (shape2 z)])
   = map (trunc_dist center) (pixels (shape2 z))"
  by (simp add: concat_map_product pixels_def trunc_dist_def trunc_sqrt_def case_prod_unfold)

lemma filter_bin_pixels:
  "set (filter (\<lambda>p. trunc_dist center p = r) (pixels (shape2 z))) = bin_pixels z center r"
  by (auto simp: bin_pixels_def set_pixels_frame)

lemma nbins_profile_length:
  "exact_nbins (map (trunc_dist center) (pixels (shape2 z))) = profile_length z center"
proof -
  have "pixels (shape2 z) = [] \<longleftrightarrow> frame_pixels z = {}"
    using set_pixels_frame [of z] by (metis set_empty)
  then show ?thesis
    by (simp add: exact_nbins_def profile_length_def set_pixels_frame)
qed

lemma radial_example_rect: "rect [[1, 2, 3, 5, 6, 7, 8::real]]"
  by (simp add: rect_def shape2_def)

lemma radial_example_value:
  "exact_radial_average [[1, 2, 3, 5, 6, 7, 8]] (0, -3)
   = Inr [NaN, NaN, NaN, Fin 1, Fin 2, Fin 3, Fin 5, Fin 6, Fin 7, Fin 8]"
  by code_simp

text \<open>
  C2. For a frame \<open>z\<close> (a rectangular array) and a center, \<open>exact_radial_average\<close> returns
  without an error a profile with one bin for each \<open>r = 0..max(r)\<close>, where \<open>r\<close> ranges
  over the Euclidean distances of the pixels from the center, truncated to an integer.
  The value of bin \<open>r\<close> is the sum of the intensities of the pixels at truncated distance
  \<open>r\<close> divided by their number, and it is \<open>NaN\<close>, not zero, when there is no such pixel.
\<close>

theorem radial_average_profile:
  assumes "rect z"
  shows "exact_radial_average z center = Inr (map (exact_bin_mean z center) [0..<profile_length z center])"
proof -
  let ?ps = "pixels (shape2 z)"
  let ?rs = "map (trunc_dist center) ?ps"
  let ?zs = "map (\<lambda>(y, x). z ! y ! x) ?ps"
  let ?n = "profile_length z center"
  let ?tbin = "fold (\<lambda>(i, w) acc. acc[i := acc ! i + w]) (zip ?rs ?zs) (replicate ?n (0::real))"
  have zs: "concat z = ?zs" by (rule ravel_pixels [OF assms])
  have tb: "exact_bincount_weights ?rs ?zs = Inr ?tbin"
    by (simp add: exact_bincount_weights_def nbins_profile_length)
  obtain h w where hw: "shape2 z = (h, w)" by (cases "shape2 z")
  have rs: "concat (map (\<lambda>y. map (\<lambda>x. trunc_sqrt ((real x - snd center)\<^sup>2 + (real y - fst center)\<^sup>2))
                                  [0..<w]) [0..<h]) = ?rs"
    using radial_bins_flat [of center z] by (simp only: hw fst_conv snd_conv)
  have ra: "exact_radial_average z center
            = Inr (map2 (\<lambda>t n. fdiv (Fin t) (Fin (real n))) ?tbin (exact_bincount ?rs))"
    unfolding exact_radial_average_def hw Let_def split_conv rs zs [unfolded hw]
    by (simp only: tb [unfolded hw] sum.case)
  have len_t: "length ?tbin = ?n" by (simp add: fold_weights_length)
  have len_n: "length (exact_bincount ?rs) = ?n" by (simp add: length_bincount nbins_profile_length)
  have "map2 (\<lambda>t n. fdiv (Fin t) (Fin (real n))) ?tbin (exact_bincount ?rs)
        = map (exact_bin_mean z center) [0..<?n]"
  proof (rule nth_equalityI)
    show "length (map2 (\<lambda>t n. fdiv (Fin t) (Fin (real n))) ?tbin (exact_bincount ?rs))
          = length (map (exact_bin_mean z center) [0..<?n])"
      by (simp add: len_t len_n)
  next
    fix k assume "k < length (map2 (\<lambda>t n. fdiv (Fin t) (Fin (real n))) ?tbin (exact_bincount ?rs))"
    then have k: "k < ?n" by (simp add: len_t len_n)
    let ?sel = "filter (\<lambda>p. trunc_dist center p = k) ?ps"
    have dist: "distinct ?sel" by (simp add: distinct_pixels)
    have zip_eq: "zip ?rs ?zs = map (\<lambda>p. (trunc_dist center p, (\<lambda>(y, x). z ! y ! x) p)) ?ps"
      by (simp add: zip_map_map zip_same_conv_map)
    have t1: "?tbin ! k = sum_list (map snd (filter (\<lambda>p. fst p = k) (zip ?rs ?zs)))"
      using k by (simp add: fold_weights_nth)
    have t2: "sum_list (map snd (filter (\<lambda>p. fst p = k) (zip ?rs ?zs)))
              = sum_list (map (\<lambda>(y, x). z ! y ! x) ?sel)"
      unfolding zip_eq by (simp add: filter_map comp_def)
    have t3: "sum_list (map (\<lambda>(y, x). z ! y ! x) ?sel) = (\<Sum>p \<in> set ?sel. (\<lambda>(y, x). z ! y ! x) p)"
      using dist by (rule sum_list_distinct_conv_sum_set)
    have t: "?tbin ! k = (\<Sum>(y, x) \<in> bin_pixels z center k. z ! y ! x)"
      unfolding t1 t2 t3 by (simp only: filter_bin_pixels)
    have "exact_bincount ?rs ! k = length (filter (\<lambda>i. i = k) ?rs)"
      using k by (simp add: nth_bincount nbins_profile_length)
    also have "\<dots> = length ?sel" by (simp add: filter_map comp_def)
    also have "\<dots> = card (set ?sel)" using distinct_card [OF dist] by (rule sym)
    finally have n: "exact_bincount ?rs ! k = card (bin_pixels z center k)"
      by (simp only: filter_bin_pixels)
    have empty_sum: "card (bin_pixels z center k) = 0
                     \<Longrightarrow> (\<Sum>(y, x) \<in> bin_pixels z center k. z ! y ! x) = 0"
      using finite_bin_pixels [of z center k] by simp
    have "fdiv (Fin (?tbin ! k)) (Fin (real (exact_bincount ?rs ! k))) = exact_bin_mean z center k"
      unfolding t n using empty_sum by (simp add: exact_bin_mean_def)
    then show "map2 (\<lambda>t n. fdiv (Fin t) (Fin (real n))) ?tbin (exact_bincount ?rs) ! k
               = map (exact_bin_mean z center) [0..<?n] ! k"
      using k by (simp add: len_t len_n)
  qed
  with ra show ?thesis by simp
qed

theorem radial_average_profile_witness:
  "rect [[1, 2, 3, 5, 6, 7, 8::real]] \<and>
   exact_radial_average [[1, 2, 3, 5, 6, 7, 8]] (0, -3)
     = Inr (map (exact_bin_mean [[1, 2, 3, 5, 6, 7, 8]] (0, -3))
              [0..<profile_length [[1, 2, 3, 5, 6, 7, 8::real]] (0, -3)]) \<and>
   map (exact_bin_mean [[1, 2, 3, 5, 6, 7, 8]] (0, -3))
     [0..<profile_length [[1, 2, 3, 5, 6, 7, 8::real]] (0, -3)]
     = [NaN, NaN, NaN, Fin 1, Fin 2, Fin 3, Fin 5, Fin 6, Fin 7, Fin 8]"
  using radial_average_profile [OF radial_example_rect, of "(0, -3)"]
        radial_example_rect radial_example_value
  by simp

section \<open>Properties of the beam position search\<close>

lemma refine_loop_stuck:
  assumes rec: "recenter z z_tmp radius m = Inr (c_int, ztmp)" and low: "c_int < m"
    and enter: "fst st < m"
  shows "refine_loop z z_tmp radius m st = None"
proof (rule ccontr)
  assume "refine_loop z z_tmp radius m st \<noteq> None"
  then obtain y where y: "refine_loop z z_tmp radius m st = Some y" by auto
  have "\<not> (z = z \<and> z_tmp = z_tmp \<and> radius = radius \<and> m = m \<and> fst st < m)"
  proof (rule refine_loop.raw_induct
      [where P = "\<lambda>z' z_tmp' radius' m' st' y'.
                    \<not> (z' = z \<and> z_tmp' = z_tmp \<and> radius' = radius \<and> m' = m \<and> fst st' < m)",
        OF _ y])
    fix loop z' z_tmp' radius' m' st' y'
    assume IH: "\<And>z' z_tmp' radius' m' st' y'. loop z' z_tmp' radius' m' st' = Some y' \<Longrightarrow>
                  \<not> (z' = z \<and> z_tmp' = z_tmp \<and> radius' = radius \<and> m' = m \<and> fst st' < m)"
      and body: "(if fst st' < m'
                  then (case recenter z' z_tmp' radius' m' of
                          Inl e \<Rightarrow> Some (Inl e)
                        | Inr (c_int, ztmp) \<Rightarrow> loop z' z_tmp' radius' m' (c_int, Some ztmp))
                  else Some (Inr st')) = Some y'"
    show "\<not> (z' = z \<and> z_tmp' = z_tmp \<and> radius' = radius \<and> m' = m \<and> fst st' < m)"
    proof
      assume eq: "z' = z \<and> z_tmp' = z_tmp \<and> radius' = radius \<and> m' = m \<and> fst st' < m"
      with body rec have "loop z z_tmp radius m (c_int, Some ztmp) = Some y'"
        by simp
      then have "\<not> (z = z \<and> z_tmp = z_tmp \<and> radius = radius \<and> m = m \<and> fst (c_int, Some ztmp) < m)"
        by (rule IH)
      with low show False by simp
    qed
  qed
  with enter show False by simp
qed

lemma stuck_frame_recenter:
  "recenter [[0, 0, 0], [5, 1, 5], [0, 0, 0]] [[0, 0, 0], [5, 1, 5], [0, 0, 0]] 1 5
   = Inr (1, [[0, 0, 0], [5, 1, 5], [0, 0, 0]])"
  by code_simp

lemma stuck_frame_start:
  "get2 [[0, 0, 0], [5, 1, 5], [0, 0, 0::real]] 1 1 = Inr 1"
  by code_simp

lemma stuck_frame_mask:
  "mul_mask [[0, 0, 0], [5, 1, 5], [0, 0, 0]] (circular_mask (3, 3) 1 (1, 1))
   = Inr [[0, 0, 0], [5, 1, 5], [0, 0, 0]]"
  by code_simp

lemma stuck_frame_shape: "shape2 [[0, 0, 0], [5, 1, 5], [0, 0, 0::real]] = (3, 3)"
  by code_simp

lemma stuck_frame_amax: "amax [[0, 0, 0], [5, 1, 5], [0, 0, 0]] = Inr 5"
  by code_simp

text \<open>
  C1. The search of \<open>refine_beam_position\<close> does not always stop. On the frame with rows
  \<open>0 0 0\<close>, \<open>5 1 5\<close>, \<open>0 0 0\<close>, started at the pixel \<open>(1, 1)\<close> with radius 1, the two
  maxima of the masked frame average to \<open>(1, 1)\<close> again, whose intensity 1 stays below
  the maximum 5 of \<open>z_tmp\<close>, which the loop never recomputes: the call does not return.
\<close>

theorem refine_beam_position_diverges:
  "refine_beam_position [[0, 0, 0], [5, 1, 5], [0, 0, 0]] (1, 1) 1 = None"
proof -
  have "refine_loop [[0, 0, 0], [5, 1, 5], [0, 0, 0]] [[0, 0, 0], [5, 1, 5], [0, 0, 0]] 1 5 (1, None)
        = None"
    by (rule refine_loop_stuck [OF stuck_frame_recenter]) simp_all
  then show ?thesis
    by (simp add: refine_beam_position_def stuck_frame_start stuck_frame_shape stuck_frame_mask stuck_frame_amax)
qed

lemma wide_frame_refine:
  "refine_beam_position [[0, 0, 0], [0, 2, 1]] (1, 1) 1 = Some (Inl ValueError)"
  by code_simp

lemma wide_frame_shape: "shape2 [[0, 0, 0], [0, 2, 1::real]] = (2, 3)"
  by (simp add: shape2_def)

text \<open>
  C4. The mask has \<open>shape[1]\<close> rows and \<open>shape[0]\<close> columns. For a frame of 2 rows and
  3 columns, whose shape \<open>(2, 3)\<close> is what \<open>refine_beam_position\<close> passes, the mask has
  3 rows and 2 columns: its shape is not the frame's, and the product of the frame and
  the mask raises \<open>ValueError\<close>.
\<close>

theorem circular_mask_shape_transposed:
  "shape2 [[0, 0, 0], [0, 2, 1::real]] = (2, 3) \<and>
   shape2 (circular_mask (shape2 [[0, 0, 0], [0, 2, 1::real]]) 1 (1, 1)) = (3, 2) \<and>
   refine_beam_position [[0, 0, 0], [0, 2, 1]] (1, 1) 1 = Some (Inl ValueError)"
  using shape2_circular_mask [of "(2, 3)" 1 "(1, 1)"] wide_frame_refine by (simp add: wide_frame_shape)

lemma peak_frame_refine:
  "refine_beam_position [[0, 0, 0], [0, 2, 1], [0, 0, 0]] (1, 1) 1 = Some (Inr (Fin 1, Fin (4 / 3)))"
  by code_simp

lemma peak_frame_position:
  "get_direct_beam_position \<lparr>data = [[[0, 0, 0], [0, 2, 1], [0, 0, 0]]]\<rparr> 1 = Some (Inr [(1, 1)])"
  by code_simp

text \<open>
  C5. \<open>get_direct_beam_position\<close> stores every refined position in an integer array and
  so drops its fractional part. For the stack of the single frame with rows \<open>0 0 0\<close>,
  \<open>0 2 1\<close>, \<open>0 0 0\<close> and radius 1, the seed is \<open>(1, 1)\<close>, \<open>refine_beam_position\<close> returns
  \<open>(1, 4/3)\<close>, and the position returned for the frame is \<open>(1, 1)\<close>.
\<close>

theorem get_direct_beam_position_truncates:
  "refine_beam_position [[0, 0, 0], [0, 2, 1], [0, 0, 0]] (1, 1) 1 = Some (Inr (Fin 1, Fin (4 / 3))) \<and>
   get_direct_beam_position \<lparr>data = [[[0, 0, 0], [0, 2, 1], [0, 0, 0]]]\<rparr> 1 = Some (Inr [(1, 1)])"
  using peak_frame_refine peak_frame_position by simp

section \<open>Properties of the beam shifts\<close>

lemma refine_all_length:
  "refine_all zs mref radius = Some (Inr cs) \<Longrightarrow> length cs = length zs"
  by (induction zs arbitrary: cs) (auto split: option.splits sum.splits prod.splits)

lemma get_direct_beam_position_length:
  "get_direct_beam_position s radius = Some (Inr cs) \<Longrightarrow> length cs = navigation_size s"
  by (auto simp: get_direct_beam_position_def navigation_size_def Let_def
           split: sum.splits dest: refine_all_length)

lemma shift_row:
  "length row = 2 \<Longrightarrow> map2 (-) row [a, b] = [row ! 0 - a, row ! 1 - (b::real)]"
proof -
  assume "length row = 2"
  then obtain u v where "row = [u, v]"
    by (cases row; cases "tl row"; auto)
  then show ?thesis by simp
qed

lemma shifts_supplied_bad:
  "\<not> has_shape cs (navigation_size s, 2)
   \<Longrightarrow> get_direct_beam_shifts s (Some cs) radius = Some (Inl ValueError)"
  by (simp add: get_direct_beam_shifts_def)

lemma shifts_supplied_ok:
  assumes "has_shape cs (navigation_size s, 2)"
  shows "get_direct_beam_shifts s (Some cs) radius
         = Some (Inr (map (\<lambda>row. [row ! 0 - (real (fst (signal_shape s)) - 1) / 2,
                                     row ! 1 - (real (snd (signal_shape s)) - 1) / 2]) cs))"
proof -
  from assms have "\<forall>row \<in> set cs. length row = 2" by (simp add: has_shape_def)
  then have "map (\<lambda>row. map2 (-) row [(real (fst (signal_shape s)) - 1) / 2,
                                        (real (snd (signal_shape s)) - 1) / 2]) cs
             = map (\<lambda>row. [row ! 0 - (real (fst (signal_shape s)) - 1) / 2,
                             row ! 1 - (real (snd (signal_shape s)) - 1) / 2]) cs"
    by (intro map_cong refl shift_row) simp
  with assms show ?thesis by (simp add: get_direct_beam_shifts_def)
qed

lemma shifts_computed:
  "get_direct_beam_shifts s None radius
   = (case get_direct_beam_position s radius of
        None \<Rightarrow> None
      | Some (Inl e) \<Rightarrow> Some (Inl e)
      | Some (Inr c) \<Rightarrow>
          Some (Inr (map (\<lambda>(c0, c1). [real_of_int c0 - (real (fst (signal_shape s)) - 1) / 2,
                                        real_of_int c1 - (real (snd (signal_shape s)) - 1) / 2]) c)))"
proof (cases "get_direct_beam_position s radius")
  case None
  then show ?thesis by (simp add: get_direct_beam_shifts_def)
next
  case (Some res)
  show ?thesis
  proof (cases res)
    case (Inl e)
    with Some show ?thesis by (simp add: get_direct_beam_shifts_def)
  next
    case (Inr c)
    with Some have "length c = navigation_size s"
      by (simp add: get_direct_beam_position_length)
    then have "has_shape (map (\<lambda>(c0, c1). [real_of_int c0, real_of_int c1]) c) (navigation_size s, 2)"
      by (auto simp: has_shape_def)
    with Some Inr show ?thesis
      by (simp add: get_direct_beam_shifts_def comp_def case_prod_unfold)
  qed
qed

lemma shifts_example_stack:
  "navigation_size \<lparr>data = [[[0, 0, 0], [0, 2, 1], [0, 0, 0]], [[0, 0, 0], [0, 2, 3], [0, 0, 1::real]]]\<rparr> = 2 \<and>
   signal_shape \<lparr>data = [[[0, 0, 0], [0, 2, 1], [0, 0, 0]], [[0, 0, 0], [0, 2, 3], [0, 0, 1::real]]]\<rparr> = (3, 3)"
  by (simp add: navigation_size_def signal_shape_def shape2_def)

text \<open>
  C6. \<open>get_direct_beam_shifts\<close> raises \<open>ValueError\<close> when the shape of the supplied centers
  is not \<open>(navigation_size, 2)\<close>. For supplied centers of that shape it returns, for each
  index, the center minus \<open>((W - 1) / 2, (H - 1) / 2)\<close>, where \<open>(W, H)\<close> is the signal shape.
  Without supplied centers it does the same with the centers that
  \<open>get_direct_beam_position\<close> computes, and it fails or does not return where that call
  does.
\<close>

theorem get_direct_beam_shifts_spec:
  "(\<not> has_shape cs (navigation_size s, 2)
      \<longrightarrow> get_direct_beam_shifts s (Some cs) radius = Some (Inl ValueError)) \<and>
   (has_shape cs (navigation_size s, 2)
      \<longrightarrow> get_direct_beam_shifts s (Some cs) radius
          = Some (Inr (map (\<lambda>row. [row ! 0 - (real (fst (signal_shape s)) - 1) / 2,
                                      row ! 1 - (real (snd (signal_shape s)) - 1) / 2]) cs))) \<and>
   get_direct_beam_shifts s None radius
     = (case get_direct_beam_position s radius of
          None \<Rightarrow> None
        | Some (Inl e) \<Rightarrow> Some (Inl e)
        | Some (Inr c) \<Rightarrow>
            Some (Inr (map (\<lambda>(c0, c1). [real_of_int c0 - (real (fst (signal_shape s)) - 1) / 2,
                                          real_of_int c1 - (real (snd (signal_shape s)) - 1) / 2]) c)))"
  using shifts_supplied_bad [of cs s radius] shifts_supplied_ok [of cs s radius]
        shifts_computed [of s radius]
  by blast

theorem get_direct_beam_shifts_spec_witness:
  "\<not> has_shape [[1, 2], [3, 4], [5, 6::real]]
       (navigation_size \<lparr>data = [[[0, 0, 0], [0, 2, 1], [0, 0, 0]], [[0, 0, 0], [0, 2, 3], [0, 0, 1::real]]]\<rparr>, 2) \<and>
   get_direct_beam_shifts \<lparr>data = [[[0, 0, 0], [0, 2, 1], [0, 0, 0]], [[0, 0, 0], [0, 2, 3], [0, 0, 1]]]\<rparr>
       (Some [[1, 2], [3, 4], [5, 6]]) 1 = Some (Inl ValueError) \<and>
   has_shape [[1, 2], [3, 4::real]]
       (navigation_size \<lparr>data = [[[0, 0, 0], [0, 2, 1], [0, 0, 0]], [[0, 0, 0], [0, 2, 3], [0, 0, 1::real]]]\<rparr>, 2) \<and>
   get_direct_beam_shifts \<lparr>data = [[[0, 0, 0], [0, 2, 1], [0, 0, 0]], [[0, 0, 0], [0, 2, 3], [0, 0, 1]]]\<rparr>
       (Some [[1, 2], [3, 4]]) 1 = Some (Inr [[0, 1], [2, 3]])"
  using get_direct_beam_shifts_spec
          [of "[[1, 2], [3, 4], [5, 6]]"
              "\<lparr>data = [[[0, 0, 0], [0, 2, 1], [0, 0, 0]], [[0, 0, 0], [0, 2, 3], [0, 0, 1]]]\<rparr>" 1]
        get_direct_beam_shifts_spec
          [of "[[1, 2], [3, 4]]"
              "\<lparr>data = [[[0, 0, 0], [0, 2, 1], [0, 0, 0]], [[0, 0, 0], [0, 2, 3], [0, 0, 1]]]\<rparr>" 1]
  by (simp add: shifts_example_stack has_shape_def)

section \<open>Properties of the geometric transformations\<close>

lemma lookup_underscore:
  "lookup_function tf_warp ''_affine_transformation'' = Inl NameError"
  by (simp add: lookup_function_def module_functions_def)

lemma lookup_affine:
  "lookup_function tf_warp ''affine_transformation'' = Inr (affine_transformation tf_warp)"
  by (simp add: lookup_function_def module_functions_def)

lemma rotate_patterns_raises:
  "rotate_patterns tf_warp s angle = (Some NameError, s)"
  by (simp add: rotate_patterns_def lookup_underscore)

lemma correct_geometric_distortion_eq:
  "correct_geometric_distortion tf_warp s D
   = (None, s\<lparr>data := map (\<lambda>z. affine_transformation tf_warp z 3 D) (data s)\<rparr>)"
  by (simp add: correct_geometric_distortion_def lookup_affine map_signal_def)

text \<open>
  C7. \<open>rotate_patterns\<close> builds the matrix and then names \<open>_affine_transformation\<close>, which
  the module does not define (it defines \<open>affine_transformation\<close>): for every stack and
  every angle the call raises \<open>NameError\<close> and no frame is warped.
\<close>

theorem rotate_patterns_name_error:
  "rotate_patterns tf_warp s angle = (Some NameError, s)"
proof -
  have "lookup_function tf_warp ''_affine_transformation'' = Inl NameError"
    by (rule lookup_underscore)
  then show ?thesis
    by (simp add: rotate_patterns_def)
qed

text \<open>
  C10. \<open>rotate_patterns\<close> does not overwrite the frames: called with 90 degrees on the stack
  of the single frame with rows \<open>1 2\<close> and \<open>3 4\<close>, it raises \<open>NameError\<close> and leaves
  the stack as it was.
\<close>

theorem rotate_patterns_keeps_frames:
  "rotate_patterns tf_warp \<lparr>data = [[[1, 2], [3, 4::real]]]\<rparr> 90
   = (Some NameError, \<lparr>data = [[[1, 2], [3, 4]]]\<rparr>)"
  using rotate_patterns_raises [of tf_warp "\<lparr>data = [[[1, 2], [3, 4::real]]]\<rparr>" 90] by simp

section \<open>Properties of the vacuum mask\<close>

lemma tall_frame_default_mask:
  "get_direct_beam_mask \<lparr>data = [[[0, 0, 0, 0], [7, 0, 0, 0]]]\<rparr> 1 None
   = [[False, False, False, False], [True, True, False, False]]"
  by code_simp

lemma tall_frame_centered_mask:
  "get_direct_beam_mask \<lparr>data = [[[0, 0, 0, 0], [7, 0, 0, 0]]]\<rparr> 1 (Some (3 / 2, 1 / 2))
   = [[False, True, True, False], [False, True, True, False]]"
  by code_simp

lemma tall_frame_maxima:
  "frame_maxima [[[0, 0, 0, 0], [7, 0, 0, 0]]]
     (map (map Not) [[False, False, False, False], [True, True, False, False]]) = Inr [0] \<and>
   frame_maxima [[[0, 0, 0, 0], [7, 0, 0, 0]]]
     (map (map Not) [[False, True, True, False], [False, True, True, False]]) = Inr [7]"
  by code_simp

text \<open>
  C9. With no center given, \<open>get_vacuum_mask\<close> does not zero the direct-beam region of a
  frame that is not square. For the stack of the single frame with rows \<open>0 0 0 0\<close> and
  \<open>7 0 0 0\<close> (width 4, height 2), radius 1 and threshold 1, the default center is
  taken as \<open>(x, y) = (1/2, 3/2)\<close> instead of the center of the frame \<open>(3/2, 1/2)\<close>: the
  mask covers the pixel of intensity 7, which lies outside the disc around the center of
  the frame, and the frame is marked as vacuum. With the center of the frame given
  explicitly the same frame is not marked.
\<close>

theorem get_vacuum_mask_default_center:
  "signal_shape \<lparr>data = [[[0, 0, 0, 0], [7, 0, 0, 0::real]]]\<rparr> = (4, 2) \<and>
   get_direct_beam_mask \<lparr>data = [[[0, 0, 0, 0], [7, 0, 0, 0]]]\<rparr> 1 None
     = [[False, False, False, False], [True, True, False, False]] \<and>
   get_vacuum_mask binary_dilation binary_erosion
     \<lparr>data = [[[0, 0, 0, 0], [7, 0, 0, 0]]]\<rparr> 1 None 1 False False = Inr [True] \<and>
   get_direct_beam_mask \<lparr>data = [[[0, 0, 0, 0], [7, 0, 0, 0]]]\<rparr> 1 (Some (3 / 2, 1 / 2))
     = [[False, True, True, False], [False, True, True, False]] \<and>
   get_vacuum_mask binary_dilation binary_erosion
     \<lparr>data = [[[0, 0, 0, 0], [7, 0, 0, 0]]]\<rparr> 1 (Some (3 / 2, 1 / 2)) 1 False False = Inr [False]"
  using tall_frame_maxima
  by (simp add: get_vacuum_mask_def tall_frame_default_mask tall_frame_centered_mask
        signal_shape_def shape2_def)

end
